theory Spec2Isabelle
  imports Main
begin

section \<open>The extension bundler and file watchers of the dev command\<close>

text \<open>
  A shallow embedding of \<^verbatim>\<open>packages/app/src/cli/services/dev/extension/bundler.ts\<close>.
  Calls to collaborators that live outside that file (the output functions, the bundler,
  the function build, the remote update functions, chokidar) are recorded, in program
  order, in a trace of effects; the promises they return settle through events that the
  environment delivers later.
\<close>

subsection \<open>Data\<close>

text \<open>
  Modelled from the spec: the class \<^verbatim>\<open>ExtensionInstance\<close>, which the file imports, with
  the fields the file reads. \<^verbatim>\<open>watchPaths\<close> is the list that a read of the property
  yields. The file does not decide whether that read hands out the array the instance
  holds or one built for the read: \<open>watchPathsStored\<close> says which, and only the
  instance that getFunctionWatchPaths leaves depends on it. \<^verbatim>\<open>stdinContent\<close> is what
  \<^verbatim>\<open>getBundleExtensionStdinContent()\<close> returns.
\<close>

record ExtensionInstance =
  devUUID :: string
  localIdentifier :: string
  directory :: string
  outputPath :: string
  configurationPath :: string
  stdinContent :: string
  isJavaScript :: bool
  watchPaths :: "string list"
  watchPathsStored :: bool

text \<open>The two writable streams of the options.\<close>

datatype stream = Stdout | Stderr

text \<open>
  A rejection reason: \<^verbatim>\<open>error.message\<close> and its rendering by
  \<^verbatim>\<open>JSON.stringify(error, null, 2)\<close>.
\<close>

datatype js_error = JsError (message: string) (json: string)

text \<open>How a promise settles.\<close>

datatype settle = Fulfilled | Rejected js_error

text \<open>The chokidar watchers the file creates, each named by its extension's devUUID.\<close>

datatype watcher = LocaleWatcher string | ConfigWatcher string | FunctionWatcher string

text \<open>
  The status argument of \<^verbatim>\<open>payloadStore.updateExtension\<close>: absent for a locale
  change, \<^verbatim>\<open>error\<close> or \<^verbatim>\<open>success\<close> after a bundle.
\<close>

datatype status = StatusError | StatusSuccess

datatype effect =
    OutputDebug string stream
  | OutputInfo string stream
  | OutputWarn string stream
  | BundleExtension string string string
  | BuildFunctionExtension string nat
  | ControllerAbort nat
  | UpdateExtensionDraft string
  | UpdateExtensionConfig string
  | PayloadUpdateExtension string "status option"
  | ChokidarWatch watcher "string list"
  | ChokidarClose watcher

subsection \<open>getFunctionWatchPaths\<close>

text \<open>
  \<^verbatim>\<open>joinPath\<close> (cli-kit) is not part of the file: it is a parameter, applied to the
  list of its arguments. The function assigns no field of the instance; it pushes onto
  the array that \<^verbatim>\<open>const watchPaths = extension.watchPaths ?? []\<close> names (the property
  is typed as an array, whose \<^verbatim>\<open>.length\<close> the first test reads, so \<^verbatim>\<open>?? []\<close> never
  supplies a new one). The second component is the instance after the call: the pushes
  reach its list only where the read handed out the array the instance holds.
\<close>

definition getFunctionWatchPaths ::
  "(string list \<Rightarrow> string) \<Rightarrow> ExtensionInstance \<Rightarrow> string list option \<times> ExtensionInstance" where
  "getFunctionWatchPaths joinPath extension =
    (if \<not> isJavaScript extension \<and> length (watchPaths extension) = 0 then (None, extension)
     else
       let array = watchPaths extension;
           defaulted = (if isJavaScript extension \<and> length array = 0
                        then array @ [joinPath [''src'', ''**'', ''*.js'']]
                                   @ [joinPath [''src'', ''**'', ''*.ts'']]
                        else array);
           pushed = defaulted @ [joinPath [''**'', ''input*.graphql'']]
       in (Some (map (\<lambda>path. joinPath [directory extension, path]) pushed),
           if watchPathsStored extension then extension\<lparr>watchPaths := pushed\<rparr> else extension))"

text \<open>
  A plain join, used only to evaluate examples: the segments separated by a slash,
  nothing normalised.
\<close>

fun joinPath_plain :: "string list \<Rightarrow> string" where
  "joinPath_plain [] = ''''"
| "joinPath_plain [p] = p"
| "joinPath_plain (p # q # ps) = p @ ''/'' @ joinPath_plain (q # ps)"




definition rust_function :: ExtensionInstance where
  "rust_function =
    \<lparr>devUUID = ''dev-1'', localIdentifier = ''discount'', directory = ''/app/extensions/discount'',
     outputPath = ''/app/extensions/discount/dist/index.wasm'',
     configurationPath = ''/app/extensions/discount/shopify.extension.toml'',
     stdinContent = '''', isJavaScript = False, watchPaths = [''src/**/*.rs''],
     watchPathsStored = False\<rparr>"


definition unwatched_function :: ExtensionInstance where
  "unwatched_function = rust_function\<lparr>devUUID := ''dev-3'', watchPaths := []\<rparr>"


subsection \<open>The trace and the shutdown signal\<close>

text \<open>
  What the handlers of one signal share: the trace of effects (oldest first), the
  signal's \<^verbatim>\<open>aborted\<close> flag, its \<^verbatim>\<open>abort\<close> listeners in the order of their
  registration (each closes the watcher it names), and the watchers whose
  \<^verbatim>\<open>close()\<close> has been called. A watcher exists once its setup has registered its
  listener, and chokidar delivers its change events until it is told to close.
\<close>

record world =
  effects :: "effect list"
  aborted :: bool
  listeners :: "watcher list"
  closing :: "watcher list"

definition emit :: "effect \<Rightarrow> 'a world_scheme \<Rightarrow> 'a world_scheme" where
  "emit e w = w\<lparr>effects := effects w @ [e]\<rparr>"

text \<open>The effects that \<open>w'\<close> has after those of \<open>w\<close>.\<close>

definition emitted :: "'a world_scheme \<Rightarrow> 'b world_scheme \<Rightarrow> effect list" where
  "emitted w w' = drop (length (effects w)) (effects w')"

definition watching :: "watcher \<Rightarrow> 'a world_scheme \<Rightarrow> bool" where
  "watching wa w = (wa \<in> set (listeners w) \<and> wa \<notin> set (closing w))"

fun kind :: "watcher \<Rightarrow> string" where
  "kind (LocaleWatcher uuid) = ''locale''"
| "kind (ConfigWatcher uuid) = ''config''"
| "kind (FunctionWatcher uuid) = ''function''"

fun Kind :: "watcher \<Rightarrow> string" where
  "Kind (LocaleWatcher uuid) = ''Locale''"
| "Kind (ConfigWatcher uuid) = ''Config''"
| "Kind (FunctionWatcher uuid) = ''Function''"

fun unit_of :: "watcher \<Rightarrow> string" where
  "unit_of (LocaleWatcher uuid) = uuid"
| "unit_of (ConfigWatcher uuid) = uuid"
| "unit_of (FunctionWatcher uuid) = uuid"

text \<open>
  Modelled from the spec: the AbortController of cli-kit's \<^verbatim>\<open>node/abort\<close>, which the
  file imports. The shutdown signal fires once and is terminal: \<^verbatim>\<open>abort()\<close> on a
  signal that has fired does nothing; otherwise it sets the flag and calls the
  listeners in the order of their registration.
\<close>

definition addAbortListener :: "watcher \<Rightarrow> 'a world_scheme \<Rightarrow> 'a world_scheme" where
  "addAbortListener wa w = w\<lparr>listeners := listeners w @ [wa]\<rparr>"

text \<open>
  The three \<^verbatim>\<open>abort\<close> listeners of the file differ in the word of their messages only:
  a debug line, then \<^verbatim>\<open>watcher.close()\<close>, whose promise settles later.
\<close>

definition on_abort :: "watcher \<Rightarrow> 'a world_scheme \<Rightarrow> 'a world_scheme" where
  "on_abort wa w =
    (emit (ChokidarClose wa)
      (emit (OutputDebug (''Closing '' @ kind wa @ '' file watching for extension with ID '' @ unit_of wa)
               Stdout) w))
    \<lparr>closing := closing w @ [wa]\<rparr>"

definition abort :: "'a world_scheme \<Rightarrow> 'a world_scheme" where
  "abort w =
    (if aborted w then w
     else foldl (\<lambda>w' wa. on_abort wa w') (w\<lparr>aborted := True\<rparr>) (listeners w))"

text \<open>The \<^verbatim>\<open>then\<close> and \<^verbatim>\<open>catch\<close> handlers on the promise of \<^verbatim>\<open>watcher.close()\<close>.\<close>

definition watcher_closed :: "watcher \<Rightarrow> settle \<Rightarrow> 'a world_scheme \<Rightarrow> 'a world_scheme" where
  "watcher_closed wa outcome w =
    (case outcome of
       Fulfilled \<Rightarrow>
         emit (OutputDebug (Kind wa @ '' file watching closed for extension with '' @ unit_of wa) Stdout) w
     | Rejected error \<Rightarrow>
         emit (OutputDebug (Kind wa @ '' file watching failed to close for extension with '' @ unit_of wa
                 @ '': '' @ message error) Stderr) w)"

subsection \<open>The bundler callbacks\<close>

text \<open>
  The result esbuild hands to a \<^verbatim>\<open>watch\<close> callback; the callbacks read it through
  \<^verbatim>\<open>result?.errors?.length ?? 0\<close>, so the result and its error list may be absent.
\<close>

record build_result =
  errors :: "string list option"

definition has_error :: "build_result option \<Rightarrow> bool" where
  "has_error result =
    ((case result of None \<Rightarrow> 0
      | Some r \<Rightarrow> (case errors r of None \<Rightarrow> 0 | Some es \<Rightarrow> length es)) > 0)"

text \<open>
  The \<^verbatim>\<open>watch\<close> callback of setupBundlerAndFileWatcher. \<open>update\<close> is how the promise of
  \<^verbatim>\<open>payloadStore.updateExtension\<close> settles; the callback awaits it inside
  \<^verbatim>\<open>try ... catch {}\<close>, so its own promise is fulfilled either way. The second
  component is how the callback's promise settles.
\<close>

definition ui_watch ::
  "ExtensionInstance \<Rightarrow> build_result option \<Rightarrow> settle \<Rightarrow> 'a world_scheme \<Rightarrow> 'a world_scheme \<times> settle" where
  "ui_watch extension result update w =
    (let error = has_error result;
         w1 = emit (OutputDebug (''The Javascript bundle of the UI extension with ID '' @ devUUID extension
                      @ '' has '' @ (if error then ''an error'' else ''changed''))
                    (if error then Stderr else Stdout)) w;
         w2 = emit (PayloadUpdateExtension (devUUID extension)
                      (Some (if error then StatusError else StatusSuccess))) w1
     in (w2, case update of Fulfilled \<Rightarrow> Fulfilled | Rejected e \<Rightarrow> Fulfilled))"

text \<open>
  The \<^verbatim>\<open>watch\<close> callback of setupDraftableExtensionBundler. It awaits
  \<^verbatim>\<open>updateExtensionDraft\<close> with no handler around it: its own promise settles as that
  one does.
\<close>

definition draftable_watch ::
  "ExtensionInstance \<Rightarrow> build_result option \<Rightarrow> settle \<Rightarrow> 'a world_scheme \<Rightarrow> 'a world_scheme \<times> settle" where
  "draftable_watch extension result update w =
    (let error = has_error result;
         w1 = emit (OutputInfo (''The Javascript bundle of the extension with ID '' @ devUUID extension
                      @ '' has '' @ (if error then ''an error'' else ''changed''))
                    (if error then Stderr else Stdout)) w
     in if error then (w1, Fulfilled)
        else (emit (UpdateExtensionDraft (devUUID extension)) w1, update))"

definition bundle_call :: "ExtensionInstance \<Rightarrow> effect" where
  "bundle_call extension =
    BundleExtension (outputPath extension) (stdinContent extension) (directory extension)"

definition setupDraftableExtensionBundler :: "ExtensionInstance \<Rightarrow> 'a world_scheme \<Rightarrow> 'a world_scheme" where
  "setupDraftableExtensionBundler extension w = emit (bundle_call extension) w"

subsection \<open>The locale and config watchers\<close>

definition locale_on_change :: "ExtensionInstance \<Rightarrow> string \<Rightarrow> 'a world_scheme \<Rightarrow> 'a world_scheme" where
  "locale_on_change extension path w =
    emit (PayloadUpdateExtension (devUUID extension) None)
      (emit (OutputDebug (''Locale file at path '' @ path @ '' changed'') Stdout) w)"

text \<open>\<^verbatim>\<open>.then(...)\<close> logs; \<^verbatim>\<open>.catch((_) => {})\<close> drops the rejection.\<close>

definition locale_notified :: "ExtensionInstance \<Rightarrow> settle \<Rightarrow> 'a world_scheme \<Rightarrow> 'a world_scheme" where
  "locale_notified extension outcome w =
    (case outcome of
       Fulfilled \<Rightarrow>
         emit (OutputDebug (''Notified extension '' @ devUUID extension @ '' about the locale change.'')
                 Stdout) w
     | Rejected e \<Rightarrow> w)"

definition config_on_change :: "ExtensionInstance \<Rightarrow> string \<Rightarrow> 'a world_scheme \<Rightarrow> 'a world_scheme" where
  "config_on_change extension path w =
    emit (UpdateExtensionConfig (devUUID extension))
      (emit (OutputInfo (''Config file at path '' @ configurationPath extension @ '' changed'') Stdout) w)"

definition config_pushed :: "settle \<Rightarrow> 'a world_scheme \<Rightarrow> 'a world_scheme" where
  "config_pushed outcome w = (case outcome of Fulfilled \<Rightarrow> w | Rejected e \<Rightarrow> w)"


subsection \<open>setupBundlerAndFileWatcher\<close>

text \<open>
  The body of the \<^verbatim>\<open>forEach\<close> callback. It has no \<^verbatim>\<open>await\<close>, so it runs to its end
  for one extension before the next: the call of \<^verbatim>\<open>bundleExtension\<close> (its promise is
  pushed on \<^verbatim>\<open>bundlers\<close>), the locale watcher, the listener on the new controller's
  signal.
\<close>

definition start_extension ::
  "(string list \<Rightarrow> string) \<Rightarrow> ExtensionInstance \<Rightarrow> 'a world_scheme \<Rightarrow> 'a world_scheme" where
  "start_extension joinPath extension w =
    addAbortListener (LocaleWatcher (devUUID extension))
      (emit (ChokidarWatch (LocaleWatcher (devUUID extension))
               [joinPath [directory extension, ''locales'', ''**.json'']])
        (emit (bundle_call extension) w))"

text \<open>What an \<^verbatim>\<open>await\<close> yields: a value, a thrown rejection, or nothing yet.\<close>

datatype 'a awaited = Returned 'a | Threw js_error | Pending

text \<open>
  \<^verbatim>\<open>Promise.all\<close> over \<open>n\<close> promises, given their settlements in the order of time, each
  with the index of its promise: rejected with the first rejection, fulfilled once all
  are fulfilled, pending otherwise.
\<close>

fun first_rejection :: "(nat \<times> settle) list \<Rightarrow> js_error option" where
  "first_rejection [] = None"
| "first_rejection ((i, Rejected e) # rest) = Some e"
| "first_rejection ((i, Fulfilled) # rest) = first_rejection rest"

definition promise_all :: "nat \<Rightarrow> (nat \<times> settle) list \<Rightarrow> unit awaited" where
  "promise_all n settlements =
    (case first_rejection (filter (\<lambda>(i, outcome). i < n) settlements) of
       Some e \<Rightarrow> Threw e
     | None \<Rightarrow>
         if list_all (\<lambda>i. (i, Fulfilled) \<in> set settlements) [0..<n] then Returned () else Pending)"

definition new_signal :: world where
  "new_signal = \<lparr>effects = [], aborted = False, listeners = [], closing = []\<rparr>"

text \<open>
  The world after the \<^verbatim>\<open>forEach\<close>, and what \<^verbatim>\<open>await Promise.all(bundlers)\<close> makes
  of the call: \<open>Returned ()\<close> stands for the handle, whose \<^verbatim>\<open>close\<close> is \<open>abort\<close> on
  that world.
\<close>

definition setupBundlerAndFileWatcher ::
  "(string list \<Rightarrow> string) \<Rightarrow> ExtensionInstance list \<Rightarrow> (nat \<times> settle) list \<Rightarrow> world \<times> unit awaited" where
  "setupBundlerAndFileWatcher joinPath extensions settlements =
    (foldl (\<lambda>w extension. start_extension joinPath extension w) new_signal extensions,
     promise_all (length extensions) settlements)"

subsection \<open>setupFunctionWatcher\<close>

text \<open>
  The variables the change handler's closure holds, beside the world. Controllers are
  named by the order of their creation; a build is named by its controller.
  \<open>abortedBuilds\<close> are the controllers whose signal is aborted, \<open>inflight\<close> the builds
  whose promise is unsettled, \<open>syncing\<close> the builds whose chain waits for
  \<^verbatim>\<open>updateExtensionDraft\<close>.
\<close>

record fw_session = world +
  buildController :: "nat option"
  abortedBuilds :: "nat set"
  builds :: nat
  inflight :: "nat set"
  syncing :: "nat set"

definition close :: "'a world_scheme \<Rightarrow> 'a world_scheme" where
  "close w = abort w"


definition session_of :: "world \<Rightarrow> fw_session" where
  "session_of w =
    \<lparr>effects = effects w, aborted = aborted w, listeners = listeners w, closing = closing w,
     buildController = None, abortedBuilds = {}, builds = 0, inflight = {}, syncing = {}\<rparr>"

text \<open>An array in a template string: its entries separated by commas.\<close>

fun commas :: "string list \<Rightarrow> string" where
  "commas [] = ''''"
| "commas [p] = p"
| "commas (p # q # ps) = p @ '','' @ commas (q # ps)"

definition setupFunctionWatcher ::
  "(string list \<Rightarrow> string) \<Rightarrow> ExtensionInstance \<Rightarrow> world \<Rightarrow> ExtensionInstance \<times> fw_session" where
  "setupFunctionWatcher joinPath extension w =
    (let w1 = emit (OutputDebug (''Starting watcher for function extension '' @ devUUID extension) Stdout) w;
         (paths, extension') = getFunctionWatchPaths joinPath extension
     in case paths of
          None \<Rightarrow>
            (extension',
             session_of (emit (OutputWarn (''Function extension '' @ localIdentifier extension'
               @ '' does not have a watch path configured, draft version deployment is disabled.'')
               Stdout) w1))
        | Some ps \<Rightarrow>
            (extension',
             session_of
               (addAbortListener (FunctionWatcher (devUUID extension'))
                 (emit (ChokidarWatch (FunctionWatcher (devUUID extension')) ps)
                   (emit (OutputDebug (''Watching paths for function extension ''
                            @ localIdentifier extension' @ '': '' @ commas ps) Stdout) w1)))))"

text \<open>The \<^verbatim>\<open>change\<close> handler of the function watcher.\<close>

definition function_on_change :: "ExtensionInstance \<Rightarrow> string \<Rightarrow> fw_session \<Rightarrow> fw_session" where
  "function_on_change extension path s =
    (let s1 = emit (OutputDebug (''Function extension file at path '' @ path @ '' changed'') Stdout) s;
         s2 = (case buildController s1 of
                 Some c \<Rightarrow> (emit (ControllerAbort c) s1)\<lparr>abortedBuilds := insert c (abortedBuilds s1)\<rparr>
               | None \<Rightarrow> s1);
         k = builds s2;
         s3 = s2\<lparr>buildController := Some k, builds := Suc k\<rparr>
     in (emit (BuildFunctionExtension (devUUID extension) k) s3)\<lparr>inflight := insert k (inflight s3)\<rparr>)"

text \<open>
  The rest of the chain \<^verbatim>\<open>.then(...).catch(...).finally(...)\<close>. Promise reactions are
  microtasks, run to the end before the next watcher event is handled, so each
  settlement is one step.
\<close>

definition chain_catch :: "js_error \<Rightarrow> fw_session \<Rightarrow> fw_session" where
  "chain_catch updateError s =
    emit (OutputWarn (''Error while deploying updated extension draft: '' @ json updateError) Stdout) s"

definition chain_finally :: "fw_session \<Rightarrow> fw_session" where
  "chain_finally s = s\<lparr>buildController := None\<rparr>"

definition build_settled :: "ExtensionInstance \<Rightarrow> nat \<Rightarrow> settle \<Rightarrow> fw_session \<Rightarrow> fw_session" where
  "build_settled extension k outcome s =
    (let s1 = s\<lparr>inflight := inflight s - {k}\<rparr>
     in case outcome of
          Fulfilled \<Rightarrow>
            if k \<notin> abortedBuilds s1
            then (emit (UpdateExtensionDraft (devUUID extension)) s1)\<lparr>syncing := insert k (syncing s1)\<rparr>
            else chain_finally s1
        | Rejected e \<Rightarrow> chain_finally (chain_catch e s1))"

definition draft_settled :: "nat \<Rightarrow> settle \<Rightarrow> fw_session \<Rightarrow> fw_session" where
  "draft_settled k outcome s =
    (let s1 = s\<lparr>syncing := syncing s - {k}\<rparr>
     in case outcome of
          Fulfilled \<Rightarrow> chain_finally s1
        | Rejected e \<Rightarrow> chain_finally (chain_catch e s1))"

subsection \<open>One unit's events\<close>

text \<open>
  What the environment delivers to the handlers of one extension: change events of a
  watcher that exists and has not been told to close, settlements of promises that are
  pending, and the shutdown. Anything else finds no handler.
\<close>

datatype event =
    Change string
  | BuildSettled nat settle
  | DraftSettled nat settle
  | LocaleChange string
  | LocaleNotified settle
  | ConfigChange string
  | ConfigPushed settle
  | Shutdown
  | WatcherClosed watcher settle

fun step :: "ExtensionInstance \<Rightarrow> fw_session \<Rightarrow> event \<Rightarrow> fw_session" where
  "step extension s (Change path) =
    (if watching (FunctionWatcher (devUUID extension)) s then function_on_change extension path s else s)"
| "step extension s (BuildSettled k outcome) =
    (if k \<in> inflight s then build_settled extension k outcome s else s)"
| "step extension s (DraftSettled k outcome) =
    (if k \<in> syncing s then draft_settled k outcome s else s)"
| "step extension s (LocaleChange path) =
    (if watching (LocaleWatcher (devUUID extension)) s then locale_on_change extension path s else s)"
| "step extension s (LocaleNotified outcome) = locale_notified extension outcome s"
| "step extension s (ConfigChange path) =
    (if watching (ConfigWatcher (devUUID extension)) s then config_on_change extension path s else s)"
| "step extension s (ConfigPushed outcome) = config_pushed outcome s"
| "step extension s Shutdown = abort s"
| "step extension s (WatcherClosed wa outcome) =
    (if wa \<in> set (closing s) then watcher_closed wa outcome s else s)"

definition run :: "ExtensionInstance \<Rightarrow> fw_session \<Rightarrow> event list \<Rightarrow> fw_session" where
  "run extension s evs = foldl (step extension) s evs"

text \<open>The builds that are neither settled nor told to cancel.\<close>

definition active :: "fw_session \<Rightarrow> nat set" where
  "active s = inflight s - abortedBuilds s"

definition is_build_call :: "effect \<Rightarrow> bool" where
  "is_build_call e =
    (case e of BundleExtension out stdin dir \<Rightarrow> True | BuildFunctionExtension uuid k \<Rightarrow> True | _ \<Rightarrow> False)"

text \<open>The extensions whose draft a trace pushes, and the watchers it tries to close.\<close>

definition draft_pushes :: "effect list \<Rightarrow> string list" where
  "draft_pushes es =
    concat (map (\<lambda>e. case e of UpdateExtensionDraft uuid \<Rightarrow> [uuid] | _ \<Rightarrow> []) es)"


subsection \<open>Examples\<close>

definition checkout_ui :: ExtensionInstance where
  "checkout_ui =
    \<lparr>devUUID = ''dev-4'', localIdentifier = ''checkout-ui'', directory = ''/app/extensions/checkout-ui'',
     outputPath = ''/app/extensions/checkout-ui/dist/main.js'',
     configurationPath = ''/app/extensions/checkout-ui/shopify.extension.toml'',
     stdinContent = ''import ./src/index.tsx'', isJavaScript = True, watchPaths = [],
     watchPathsStored = False\<rparr>"

definition admin_ui :: ExtensionInstance where
  "admin_ui =
    \<lparr>devUUID = ''dev-5'', localIdentifier = ''admin-ui'', directory = ''/app/extensions/admin-ui'',
     outputPath = ''/app/extensions/admin-ui/dist/main.js'',
     configurationPath = ''/app/extensions/admin-ui/shopify.extension.toml'',
     stdinContent = ''import ./src/index.tsx'', isJavaScript = True, watchPaths = [],
     watchPathsStored = False\<rparr>"

definition build_failed :: js_error where
  "build_failed = JsError ''Build failed with 1 error'' ''{}''"

definition network_error :: js_error where
  "network_error = JsError ''request to the partners API failed'' ''{}''"

text \<open>The session of the Rust function once setupFunctionWatcher has run on a new signal.\<close>

definition rust_session :: fw_session where
  "rust_session = snd (setupFunctionWatcher joinPath_plain rust_function new_signal)"

section \<open>Results\<close>

subsection \<open>getFunctionWatchPaths\<close>

lemma getFunctionWatchPaths_frame:
  "devUUID (snd (getFunctionWatchPaths joinPath extension)) = devUUID extension \<and>
   localIdentifier (snd (getFunctionWatchPaths joinPath extension)) = localIdentifier extension \<and>
   directory (snd (getFunctionWatchPaths joinPath extension)) = directory extension \<and>
   outputPath (snd (getFunctionWatchPaths joinPath extension)) = outputPath extension \<and>
   configurationPath (snd (getFunctionWatchPaths joinPath extension)) = configurationPath extension \<and>
   stdinContent (snd (getFunctionWatchPaths joinPath extension)) = stdinContent extension \<and>
   isJavaScript (snd (getFunctionWatchPaths joinPath extension)) = isJavaScript extension \<and>
   watchPathsStored (snd (getFunctionWatchPaths joinPath extension)) = watchPathsStored extension"
  by (simp add: getFunctionWatchPaths_def Let_def)

text \<open>
  With a join that only puts slashes between its segments, every entry starts with the
  extension's directory.
\<close>

lemma joinPath_plain_starts_with_directory:
  "take (length (directory extension)) (joinPath_plain [directory extension, path]) =
     directory extension"
  by simp




text \<open>
  What the call leaves of the instance. It assigns no field
  (\<open>getFunctionWatchPaths_frame\<close>). Where a read of \<^verbatim>\<open>watchPaths\<close> yields an array
  built for the read, the instance is as it was; where it yields the array the instance
  holds, the pushes are in the instance's list after the call.
\<close>

lemma getFunctionWatchPaths_instance:
  "(\<not> watchPathsStored extension \<longrightarrow>
      snd (getFunctionWatchPaths joinPath extension) = extension) \<and>
   (fst (getFunctionWatchPaths joinPath extension) = None \<longrightarrow>
      snd (getFunctionWatchPaths joinPath extension) = extension) \<and>
   (watchPathsStored extension \<and> watchPaths extension \<noteq> [] \<longrightarrow>
      watchPaths (snd (getFunctionWatchPaths joinPath extension)) =
        watchPaths extension @ [joinPath [''**'', ''input*.graphql'']])"
  by (simp add: getFunctionWatchPaths_def Let_def)

subsection \<open>Starting a function watcher without watch paths\<close>

text \<open>
  Claim C7. For a function extension that is not JavaScript and has no configured
  watch paths, setupFunctionWatcher returns normally after a debug line and one warning:
  the instance is untouched, no watcher is created, no listener is registered on the
  signal, no build is in flight, and (on a signal that holds no function watcher of this
  extension) a change event finds no handler.
\<close>

theorem setupFunctionWatcher_without_watch_paths:
  "\<not> isJavaScript extension \<and> watchPaths extension = [] \<Longrightarrow>
   fst (setupFunctionWatcher joinPath extension w) = extension \<and>
   emitted w (snd (setupFunctionWatcher joinPath extension w)) =
     [OutputDebug (''Starting watcher for function extension '' @ devUUID extension) Stdout,
      OutputWarn (''Function extension '' @ localIdentifier extension
        @ '' does not have a watch path configured, draft version deployment is disabled.'') Stdout] \<and>
   listeners (snd (setupFunctionWatcher joinPath extension w)) = listeners w \<and>
   closing (snd (setupFunctionWatcher joinPath extension w)) = closing w \<and>
   inflight (snd (setupFunctionWatcher joinPath extension w)) = {} \<and>
   (FunctionWatcher (devUUID extension) \<notin> set (listeners w) \<longrightarrow>
      step extension (snd (setupFunctionWatcher joinPath extension w)) (Change path) =
        snd (setupFunctionWatcher joinPath extension w))"
  by (simp add: setupFunctionWatcher_def getFunctionWatchPaths_def session_of_def emitted_def emit_def
      watching_def)

theorem setupFunctionWatcher_without_watch_paths_witness:
  "\<not> isJavaScript unwatched_function \<and> watchPaths unwatched_function = [] \<and>
   FunctionWatcher (devUUID unwatched_function) \<notin> set (listeners new_signal) \<and>
   effects (snd (setupFunctionWatcher joinPath_plain unwatched_function new_signal)) =
     [OutputDebug ''Starting watcher for function extension dev-3'' Stdout,
      OutputWarn ''Function extension discount does not have a watch path configured, draft version deployment is disabled.'' Stdout] \<and>
   listeners (snd (setupFunctionWatcher joinPath_plain unwatched_function new_signal)) = [] \<and>
   step unwatched_function (snd (setupFunctionWatcher joinPath_plain unwatched_function new_signal))
       (Change ''src/main.rs'') =
     snd (setupFunctionWatcher joinPath_plain unwatched_function new_signal)"
  using setupFunctionWatcher_without_watch_paths
    [of unwatched_function joinPath_plain new_signal "''src/main.rs''"]
  by (simp add: unwatched_function_def rust_function_def new_signal_def emitted_def)

subsection \<open>The draftable bundler's callback\<close>

text \<open>
  Claim C3. The watch callback of the draftable-extension bundler calls
  updateExtensionDraft exactly when the build result has no errors: once, for this
  extension, when the error list is empty (or absent), and not at all when it holds an
  error.
\<close>

theorem draftable_watch_syncs_iff_no_error:
  "draft_pushes (emitted w (fst (draftable_watch extension (Some \<lparr>errors = Some es\<rparr>) update w))) =
     (if es = [] then [devUUID extension] else []) \<and>
   draft_pushes (emitted w (fst (draftable_watch extension result update w))) =
     (if has_error result then [] else [devUUID extension])"
  by (simp add: draftable_watch_def has_error_def draft_pushes_def emitted_def emit_def Let_def)

subsection \<open>Locale and config changes\<close>

text \<open>
  Claim C6. A locale change emits a debug line and the payload store's notification,
  a config change an info line and updateExtensionConfig; neither these handlers nor
  the handlers of their promises call the bundler or the function build, and they leave
  the build controller, the aborted controllers and the builds in flight as they were.
\<close>

theorem locale_and_config_changes_bypass_the_build:
  "emitted s (locale_on_change extension path s) =
     [OutputDebug (''Locale file at path '' @ path @ '' changed'') Stdout,
      PayloadUpdateExtension (devUUID extension) None] \<and>
   emitted s (config_on_change extension path s) =
     [OutputInfo (''Config file at path '' @ configurationPath extension @ '' changed'') Stdout,
      UpdateExtensionConfig (devUUID extension)] \<and>
   \<not> list_ex is_build_call (emitted s (step extension s (LocaleChange path))) \<and>
   \<not> list_ex is_build_call (emitted s (step extension s (LocaleNotified outcome))) \<and>
   \<not> list_ex is_build_call (emitted s (step extension s (ConfigChange path))) \<and>
   \<not> list_ex is_build_call (emitted s (step extension s (ConfigPushed outcome))) \<and>
   buildController (step extension s (LocaleChange path)) = buildController s \<and>
   abortedBuilds (step extension s (LocaleChange path)) = abortedBuilds s \<and>
   inflight (step extension s (LocaleChange path)) = inflight s \<and>
   buildController (step extension s (ConfigChange path)) = buildController s \<and>
   abortedBuilds (step extension s (ConfigChange path)) = abortedBuilds s \<and>
   inflight (step extension s (ConfigChange path)) = inflight s"
  by (simp add: locale_on_change_def config_on_change_def locale_notified_def config_pushed_def
      is_build_call_def emit_def emitted_def split: settle.split)

subsection \<open>setupBundlerAndFileWatcher\<close>

lemma start_fold_effects:
  "effects (foldl (\<lambda>w extension. start_extension joinPath extension w) w0 extensions) =
     effects w0 @ concat (map (\<lambda>extension.
       [bundle_call extension,
        ChokidarWatch (LocaleWatcher (devUUID extension))
          [joinPath [directory extension, ''locales'', ''**.json'']]]) extensions)"
  by (induction extensions arbitrary: w0) (simp_all add: start_extension_def emit_def addAbortListener_def)

lemma start_fold_listeners:
  "listeners (foldl (\<lambda>w extension. start_extension joinPath extension w) w0 extensions) =
     listeners w0 @ map (\<lambda>extension. LocaleWatcher (devUUID extension)) extensions"
  by (induction extensions arbitrary: w0) (simp_all add: start_extension_def emit_def addAbortListener_def)


lemma build_calls_of_start:
  "filter is_build_call (concat (map (\<lambda>extension.
       [bundle_call extension,
        ChokidarWatch (LocaleWatcher (devUUID extension))
          [joinPath [directory extension, ''locales'', ''**.json'']]]) extensions)) =
   map bundle_call extensions"
  by (induction extensions) (simp_all add: is_build_call_def bundle_call_def)

lemma first_rejection_None:
  "(first_rejection xs = None) = (\<forall>i e. (i, Rejected e) \<notin> set xs)"
  by (induction xs rule: first_rejection.induct) auto

text \<open>
  Claim C4, as stated, at two extensions of which the first one's bundler fails to
  start: both bundlers are called, and the call throws the failure instead of returning
  the handle.
\<close>

theorem setupBundlerAndFileWatcher_rejects_on_first_failure:
  "snd (setupBundlerAndFileWatcher joinPath_plain [checkout_ui, admin_ui]
          [(0, Rejected build_failed), (1, Fulfilled)]) = Threw build_failed \<and>
   snd (setupBundlerAndFileWatcher joinPath_plain [checkout_ui, admin_ui]
          [(0, Rejected build_failed), (1, Fulfilled)]) \<noteq> Returned () \<and>
   filter is_build_call (effects (fst (setupBundlerAndFileWatcher joinPath_plain [checkout_ui, admin_ui]
          [(0, Rejected build_failed), (1, Fulfilled)]))) = [bundle_call checkout_ui, bundle_call admin_ui]"
  by (simp add: setupBundlerAndFileWatcher_def promise_all_def start_extension_def emit_def
      addAbortListener_def new_signal_def is_build_call_def bundle_call_def)

text \<open>
  Claim C4, amended. setupBundlerAndFileWatcher starts every extension whatever
  becomes of the others: what it starts does not depend on how the bundlers' promises
  settle, the bundler is called once per extension, in order, and one locale watcher
  per extension is registered on the signal. It returns the handle exactly when every
  bundler's promise is fulfilled and none is rejected; if the promise of one of the
  bundlers is rejected, the call throws and returns no handle.
\<close>

theorem setupBundlerAndFileWatcher_starts_all_returns_if_all_start:
  "fst (setupBundlerAndFileWatcher joinPath extensions settlements) =
     fst (setupBundlerAndFileWatcher joinPath extensions []) \<and>
   filter is_build_call (effects (fst (setupBundlerAndFileWatcher joinPath extensions settlements))) =
     map bundle_call extensions \<and>
   listeners (fst (setupBundlerAndFileWatcher joinPath extensions settlements)) =
     map (\<lambda>extension. LocaleWatcher (devUUID extension)) extensions \<and>
   ((\<exists>i e. i < length extensions \<and> (i, Rejected e) \<in> set settlements) \<longrightarrow>
      (\<exists>e. snd (setupBundlerAndFileWatcher joinPath extensions settlements) = Threw e)) \<and>
   ((snd (setupBundlerAndFileWatcher joinPath extensions settlements) = Returned ()) =
      (\<forall>i < length extensions. (i, Fulfilled) \<in> set settlements \<and>
         (\<forall>e. (i, Rejected e) \<notin> set settlements)))"
proof -
  let ?rel = "filter (\<lambda>(i, outcome). i < length extensions) settlements"
  have none: "(first_rejection ?rel = None) =
      (\<forall>i e. i < length extensions \<longrightarrow> (i, Rejected e) \<notin> set settlements)"
    by (auto simp add: first_rejection_None)
  have all: "list_all (\<lambda>i. (i, Fulfilled) \<in> set settlements) [0..<length extensions] =
      (\<forall>i < length extensions. (i, Fulfilled) \<in> set settlements)"
    by (auto simp add: list_all_iff)
  have threw: "(\<exists>i e. i < length extensions \<and> (i, Rejected e) \<in> set settlements) \<longrightarrow>
      (\<exists>e. promise_all (length extensions) settlements = Threw e)"
  proof
    assume "\<exists>i e. i < length extensions \<and> (i, Rejected e) \<in> set settlements"
    then have "first_rejection ?rel \<noteq> None" using none by auto
    then obtain e where "first_rejection ?rel = Some e" by blast
    then show "\<exists>e. promise_all (length extensions) settlements = Threw e"
      by (simp add: promise_all_def)
  qed
  have returned: "(promise_all (length extensions) settlements = Returned ()) =
      (\<forall>i < length extensions. (i, Fulfilled) \<in> set settlements \<and>
         (\<forall>e. (i, Rejected e) \<notin> set settlements))"
  proof (cases "first_rejection ?rel")
    case None
    then show ?thesis using none all by (auto simp add: promise_all_def)
  next
    case (Some e)
    then have "first_rejection ?rel \<noteq> None" by simp
    then have "\<exists>i e. i < length extensions \<and> (i, Rejected e) \<in> set settlements"
      using none by auto
    then show ?thesis using Some by (auto simp add: promise_all_def)
  qed
  show ?thesis
    using threw returned
    by (simp add: setupBundlerAndFileWatcher_def start_fold_effects start_fold_listeners
        build_calls_of_start new_signal_def)
qed

theorem setupBundlerAndFileWatcher_starts_all_returns_if_all_start_witness:
  "(0 < length [checkout_ui, admin_ui] \<and>
    (0, Rejected build_failed) \<in> set [(0, Rejected build_failed), (1, Fulfilled)]) \<and>
   (\<exists>e. snd (setupBundlerAndFileWatcher joinPath_plain [checkout_ui, admin_ui]
            [(0, Rejected build_failed), (1, Fulfilled)]) = Threw e) \<and>
   snd (setupBundlerAndFileWatcher joinPath_plain [checkout_ui, admin_ui]
            [(1, Fulfilled), (0, Fulfilled)]) = Returned ()"
  using setupBundlerAndFileWatcher_starts_all_returns_if_all_start
      [of joinPath_plain "[checkout_ui, admin_ui]" "[(0, Rejected build_failed), (1, Fulfilled)]"]
    setupBundlerAndFileWatcher_starts_all_returns_if_all_start
      [of joinPath_plain "[checkout_ui, admin_ui]" "[(1, Fulfilled), (0, Fulfilled)]"]
  by (auto simp add: less_Suc_eq)

subsection \<open>Closing\<close>




lemma on_abort_fold_session:
  "buildController (foldl (\<lambda>w' wa. on_abort wa w') s ls) = buildController s \<and>
   abortedBuilds (foldl (\<lambda>w' wa. on_abort wa w') s ls) = abortedBuilds s \<and>
   builds (foldl (\<lambda>w' wa. on_abort wa w') s ls) = builds s \<and>
   inflight (foldl (\<lambda>w' wa. on_abort wa w') s ls) = inflight s \<and>
   syncing (foldl (\<lambda>w' wa. on_abort wa w') s ls) = syncing s"
  by (induction ls arbitrary: s) (simp_all add: on_abort_def emit_def)

lemma abort_session_frame:
  "buildController (abort s) = buildController s \<and> abortedBuilds (abort s) = abortedBuilds s \<and>
   builds (abort s) = builds s \<and> inflight (abort s) = inflight s \<and> syncing (abort s) = syncing s"
  by (simp add: abort_def on_abort_fold_session)





subsection \<open>The function watcher's builds\<close>

lemma abortedBuilds_step:
  "k \<in> abortedBuilds s \<Longrightarrow> k \<in> abortedBuilds (step extension s ev)"
  by (cases ev)
    (auto simp add: function_on_change_def build_settled_def draft_settled_def chain_catch_def
      chain_finally_def locale_on_change_def locale_notified_def config_on_change_def
      config_pushed_def watcher_closed_def emit_def abort_session_frame Let_def
      split: option.split settle.split)

lemma abortedBuilds_run:
  "k \<in> abortedBuilds s \<Longrightarrow> k \<in> abortedBuilds (run extension s evs)"
  unfolding run_def
  by (induction evs arbitrary: s) (simp_all add: abortedBuilds_step)

lemma change_aborts_registered_build:
  "buildController s = Some k \<Longrightarrow> watching (FunctionWatcher (devUUID extension)) s \<Longrightarrow>
   k \<in> abortedBuilds (step extension s (Change path)) \<and>
   emitted s (step extension s (Change path)) =
     [OutputDebug (''Function extension file at path '' @ path @ '' changed'') Stdout,
      ControllerAbort k, BuildFunctionExtension (devUUID extension) (builds s)]"
  by (simp add: function_on_change_def emit_def emitted_def Let_def)

lemma aborted_build_settles_without_sync:
  "k \<in> abortedBuilds t \<Longrightarrow>
   emitted t (step extension t (BuildSettled k Fulfilled)) = [] \<and>
   (k \<in> inflight t \<longrightarrow>
      emitted t (step extension t (BuildSettled k (Rejected e))) =
        [OutputWarn (''Error while deploying updated extension draft: '' @ json e) Stdout]) \<and>
   draft_pushes (emitted t (step extension t (BuildSettled k outcome))) = []"
  by (simp add: build_settled_def chain_catch_def chain_finally_def emit_def emitted_def
      draft_pushes_def Let_def split: settle.split)

text \<open>
  Claim C1. The claim is that at most one build is active at every instant. After two
  changes the first build is aborted and rejects; its \<^verbatim>\<open>finally\<close> handler sets
  \<open>buildController\<close> to null although the variable holds the second build's
  controller by then. The third change finds null, aborts nothing, and starts a third
  build beside the second: two builds are active, and both push a draft when they
  resolve.
\<close>

theorem stale_finally_leaves_two_active_builds:
  "buildController (run rust_function rust_session
     [Change ''src/main.rs'', Change ''src/main.rs'', BuildSettled 0 (Rejected build_failed)]) = None \<and>
   inflight (run rust_function rust_session
     [Change ''src/main.rs'', Change ''src/main.rs'', BuildSettled 0 (Rejected build_failed)]) = {1} \<and>
   active (run rust_function rust_session
     [Change ''src/main.rs'', Change ''src/main.rs'', BuildSettled 0 (Rejected build_failed),
      Change ''src/main.rs'']) = {1, 2} \<and>
   ControllerAbort 1 \<notin> set (effects (run rust_function rust_session
     [Change ''src/main.rs'', Change ''src/main.rs'', BuildSettled 0 (Rejected build_failed),
      Change ''src/main.rs''])) \<and>
   draft_pushes (emitted rust_session (run rust_function rust_session
     [Change ''src/main.rs'', Change ''src/main.rs'', BuildSettled 0 (Rejected build_failed),
      Change ''src/main.rs'', BuildSettled 1 Fulfilled, BuildSettled 2 Fulfilled])) = [''dev-1'', ''dev-1'']"
  by (auto simp add: run_def active_def rust_session_def setupFunctionWatcher_def getFunctionWatchPaths_def
      rust_function_def new_signal_def session_of_def emit_def emitted_def addAbortListener_def
      watching_def function_on_change_def build_settled_def chain_catch_def chain_finally_def
      build_failed_def draft_pushes_def Let_def)

text \<open>
  Claim C2, as stated, at two changes followed by the rejection of the first build:
  the first build is unresolved and aborted when the second change has arrived, and its
  rejection is reported by the warning of the \<^verbatim>\<open>catch\<close> handler.
\<close>

theorem stale_rejection_is_reported:
  "buildController (run rust_function rust_session [Change ''src/main.rs'', Change ''src/main.rs'']) = Some 1 \<and>
   inflight (run rust_function rust_session [Change ''src/main.rs'', Change ''src/main.rs'']) = {0, 1} \<and>
   abortedBuilds (run rust_function rust_session [Change ''src/main.rs'', Change ''src/main.rs'']) = {0} \<and>
   emitted (run rust_function rust_session [Change ''src/main.rs'', Change ''src/main.rs''])
     (run rust_function rust_session
        [Change ''src/main.rs'', Change ''src/main.rs'', BuildSettled 0 (Rejected build_failed)]) =
     [OutputWarn ''Error while deploying updated extension draft: {}'' Stdout]"
  by (auto simp add: run_def rust_session_def setupFunctionWatcher_def getFunctionWatchPaths_def
      rust_function_def new_signal_def session_of_def emit_def emitted_def addAbortListener_def
      watching_def function_on_change_def build_settled_def chain_catch_def chain_finally_def
      build_failed_def Let_def)

text \<open>
  Claim C2, amended. If a change arrives while \<open>buildController\<close> holds the
  controller of build \<open>k\<close>, the handler aborts that controller before it starts the
  new build, and from then on, after any further events, the settlement of build \<open>k\<close>
  pushes no draft: fulfilled, it emits nothing; rejected, it emits the warning of the
  \<^verbatim>\<open>catch\<close> handler and nothing else.
\<close>

theorem superseded_build_never_syncs:
  "buildController s = Some k \<and> watching (FunctionWatcher (devUUID extension)) s \<Longrightarrow>
   emitted s (step extension s (Change path)) =
     [OutputDebug (''Function extension file at path '' @ path @ '' changed'') Stdout,
      ControllerAbort k, BuildFunctionExtension (devUUID extension) (builds s)] \<and>
   k \<in> abortedBuilds (run extension (step extension s (Change path)) evs) \<and>
   emitted (run extension (step extension s (Change path)) evs)
     (step extension (run extension (step extension s (Change path)) evs) (BuildSettled k Fulfilled)) = [] \<and>
   (k \<in> inflight (run extension (step extension s (Change path)) evs) \<longrightarrow>
      emitted (run extension (step extension s (Change path)) evs)
        (step extension (run extension (step extension s (Change path)) evs) (BuildSettled k (Rejected e))) =
        [OutputWarn (''Error while deploying updated extension draft: '' @ json e) Stdout]) \<and>
   draft_pushes (emitted (run extension (step extension s (Change path)) evs)
     (step extension (run extension (step extension s (Change path)) evs) (BuildSettled k outcome))) = []"
proof -
  assume registered: "buildController s = Some k \<and> watching (FunctionWatcher (devUUID extension)) s"
  let ?t = "run extension (step extension s (Change path)) evs"
  have change: "k \<in> abortedBuilds (step extension s (Change path)) \<and>
      emitted s (step extension s (Change path)) =
        [OutputDebug (''Function extension file at path '' @ path @ '' changed'') Stdout,
         ControllerAbort k, BuildFunctionExtension (devUUID extension) (builds s)]"
    using registered change_aborts_registered_build by blast
  then have stale: "k \<in> abortedBuilds ?t"
    by (simp add: abortedBuilds_run)
  show ?thesis
    using change stale aborted_build_settles_without_sync [OF stale, of extension e outcome]
    by blast
qed

theorem superseded_build_never_syncs_witness:
  "buildController (run rust_function rust_session [Change ''src/main.rs'']) = Some 0 \<and>
   watching (FunctionWatcher (devUUID rust_function)) (run rust_function rust_session [Change ''src/main.rs'']) \<and>
   0 \<in> inflight (run rust_function (step rust_function (run rust_function rust_session [Change ''src/main.rs''])
        (Change ''src/main.rs'')) []) \<and>
   0 \<in> abortedBuilds (run rust_function (step rust_function (run rust_function rust_session [Change ''src/main.rs''])
        (Change ''src/main.rs'')) []) \<and>
   emitted (run rust_function (step rust_function (run rust_function rust_session [Change ''src/main.rs''])
        (Change ''src/main.rs'')) [])
     (step rust_function (run rust_function (step rust_function (run rust_function rust_session [Change ''src/main.rs''])
        (Change ''src/main.rs'')) []) (BuildSettled 0 Fulfilled)) = [] \<and>
   emitted (run rust_function (step rust_function (run rust_function rust_session [Change ''src/main.rs''])
        (Change ''src/main.rs'')) [])
     (step rust_function (run rust_function (step rust_function (run rust_function rust_session [Change ''src/main.rs''])
        (Change ''src/main.rs'')) []) (BuildSettled 0 (Rejected build_failed))) =
     [OutputWarn ''Error while deploying updated extension draft: {}'' Stdout]"
proof -
  have registered: "buildController (run rust_function rust_session [Change ''src/main.rs'']) = Some 0 \<and>
      watching (FunctionWatcher (devUUID rust_function)) (run rust_function rust_session [Change ''src/main.rs''])"
    by (simp add: run_def rust_session_def setupFunctionWatcher_def getFunctionWatchPaths_def
      rust_function_def new_signal_def session_of_def emit_def addAbortListener_def
      watching_def function_on_change_def Let_def)
  have inflight: "0 \<in> inflight (run rust_function (step rust_function
        (run rust_function rust_session [Change ''src/main.rs'']) (Change ''src/main.rs'')) [])"
    by (simp add: run_def rust_session_def setupFunctionWatcher_def getFunctionWatchPaths_def
      rust_function_def new_signal_def session_of_def emit_def addAbortListener_def
      watching_def function_on_change_def Let_def)
  show ?thesis
    using registered inflight
      superseded_build_never_syncs [OF registered, of "''src/main.rs''" "[]" build_failed Fulfilled]
    by (simp add: build_failed_def)
qed

subsection \<open>Failures of the remote updates\<close>

text \<open>
  The function watcher's chain, the config watcher, the locale watcher and the
  callback of the UI bundler catch a rejected update: at most a warning, no watcher
  closed.
\<close>

lemma other_sync_failures_are_caught:
  "locale_notified extension (Rejected e) s = s \<and>
   config_pushed (Rejected e) s = s \<and>
   snd (ui_watch extension result (Rejected e) s) = Fulfilled \<and>
   (k \<in> syncing s \<longrightarrow>
      emitted s (step extension s (DraftSettled k (Rejected e))) =
        [OutputWarn (''Error while deploying updated extension draft: '' @ json e) Stdout] \<and>
      listeners (step extension s (DraftSettled k (Rejected e))) = listeners s \<and>
      closing (step extension s (DraftSettled k (Rejected e))) = closing s)"
  by (simp add: locale_notified_def config_pushed_def ui_watch_def draft_settled_def chain_catch_def
      chain_finally_def emit_def emitted_def Let_def)

text \<open>
  Claim C8. The claim is that a rejected draft push never leaves its handler. The
  callback of the draftable bundler awaits updateExtensionDraft with nothing around it:
  after an error-free build whose draft push is rejected, the callback's own promise is
  rejected with the same error, where the callback of the UI bundler is fulfilled.
\<close>

theorem draftable_watch_lets_the_rejection_out:
  "snd (draftable_watch checkout_ui (Some \<lparr>errors = Some []\<rparr>) (Rejected network_error) new_signal) =
     Rejected network_error \<and>
   snd (ui_watch checkout_ui (Some \<lparr>errors = Some []\<rparr>) (Rejected network_error) new_signal) = Fulfilled \<and>
   emitted new_signal
     (fst (draftable_watch checkout_ui (Some \<lparr>errors = Some []\<rparr>) (Rejected network_error) new_signal)) =
     [OutputInfo ''The Javascript bundle of the extension with ID dev-4 has changed'' Stdout,
      UpdateExtensionDraft ''dev-4'']"
  by (simp add: draftable_watch_def ui_watch_def has_error_def emit_def emitted_def new_signal_def
      checkout_ui_def Let_def)

end
